theory Spec2Isabelle
  imports Complex_Main
begin

unbundle bit_operations_syntax

section \<open>Earth Engine values at one pixel\<close>

text \<open>
  The handlers build a deferred image expression that the Earth Engine backend
  evaluates pixel by pixel.  A pixel of an image is either masked (no data,
  \<open>None\<close>) or carries one value per band name.  Raw Sentinel-2 pixels
  hold integer digital numbers; after scaling they hold reflectances.
\<close>

type_synonym 'v pixel = "(string \<Rightarrow> 'v) option"

text \<open>\<open>image.select(name)\<close>: the one band of a pixel.\<close>

definition select :: "'v pixel \<Rightarrow> string \<Rightarrow> 'v option" where
  "select img name = map_option (\<lambda>bands. bands name) img"

text \<open>\<open>a.bitwiseAnd(m)\<close> on an integer band and a constant.\<close>

definition bitwiseAnd :: "int option \<Rightarrow> int \<Rightarrow> int option" where
  "bitwiseAnd a m = map_option (\<lambda>v. v AND m) a"

text \<open>\<open>a.eq(c)\<close>: 1 where the values are equal, 0 elsewhere.\<close>

definition eq :: "int option \<Rightarrow> int \<Rightarrow> int option" where
  "eq a c = map_option (\<lambda>v. if v = c then 1 else 0) a"

text \<open>\<open>a.and(b)\<close>: 1 where both values are non-zero, 0 elsewhere.\<close>

definition and_ee :: "int option \<Rightarrow> int option \<Rightarrow> int option" where
  "and_ee a b =
     (case (a, b) of
        (Some x, Some y) \<Rightarrow> Some (if x \<noteq> 0 \<and> y \<noteq> 0 then 1 else 0)
      | _ \<Rightarrow> None)"

text \<open>
  \<open>image.updateMask(mask)\<close>: the pixel stays valid only where it was valid
  and the mask is valid and non-zero.
\<close>

definition updateMask :: "'v pixel \<Rightarrow> int option \<Rightarrow> 'v pixel" where
  "updateMask img msk =
     (case (img, msk) of
        (Some bands, Some m) \<Rightarrow> (if m \<noteq> 0 then Some bands else None)
      | _ \<Rightarrow> None)"

text \<open>\<open>image.divide(d)\<close>: every band of a valid pixel divided by the constant.\<close>

definition divide :: "int pixel \<Rightarrow> real \<Rightarrow> real pixel" where
  "divide img d = map_option (\<lambda>bands name. real_of_int (bands name) / d) img"

subsection \<open>The cloud mask\<close>

text \<open>
  \<^verbatim>\<open>
  const maskS2clouds = (image) => {
      const qa = image.select('QA60');
      const cloudBitMask = 1 << 10;
      const cirrusBitMask = 1 << 11;
      const mask = qa.bitwiseAnd(cloudBitMask).eq(0).and(qa.bitwiseAnd(cirrusBitMask).eq(0));
      return image.updateMask(mask).divide(10000);
  };
  \<close>
  The function is the same in every handler file.
\<close>

definition cloudBitMask :: int where
  "cloudBitMask = push_bit 10 1"

definition cirrusBitMask :: int where
  "cirrusBitMask = push_bit 11 1"

definition maskS2clouds :: "int pixel \<Rightarrow> real pixel" where
  "maskS2clouds img =
     (let qa = select img ''QA60'';
          msk = and_ee (eq (bitwiseAnd qa cloudBitMask) 0)
                        (eq (bitwiseAnd qa cirrusBitMask) 0)
      in divide (updateMask img msk) 10000)"


section \<open>JavaScript values\<close>

text \<open>
  A JavaScript number is modelled as a real, together with the three special values
  that \<open>parseFloat\<close> and \<open>isNaN\<close> distinguish.
\<close>

datatype number = NaN | Num real | PosInfinity | NegInfinity

definition isNaN :: "number \<Rightarrow> bool" where
  "isNaN n = (n = NaN)"

definition negate :: "number \<Rightarrow> number" where
  "negate n =
     (case n of NaN \<Rightarrow> NaN | Num x \<Rightarrow> Num (- x)
      | PosInfinity \<Rightarrow> NegInfinity | NegInfinity \<Rightarrow> PosInfinity)"

text \<open>
  \<open>ToString\<close> of a query parameter: a parameter that is absent is
  \<open>undefined\<close> and converts to the text \<open>undefined\<close>.
\<close>

definition ToString :: "string option \<Rightarrow> string" where
  "ToString v = (case v of None \<Rightarrow> ''undefined'' | Some s \<Rightarrow> s)"

text \<open>
  \<open>!v\<close> on a query parameter: true for \<open>undefined\<close> and for the
  empty string.
\<close>

definition falsy :: "string option \<Rightarrow> bool" where
  "falsy v = (case v of None \<Rightarrow> True | Some s \<Rightarrow> s = [])"

subsection \<open>parseFloat\<close>

text \<open>
  \<open>parseFloat\<close> converts its argument to a string, skips leading (ASCII) white
  space and reads the longest prefix that is a decimal literal (sign, \<open>Infinity\<close>, or
  digits with an optional fraction and exponent); the rest of the text is ignored.
  Without such a prefix the result is \<open>NaN\<close>.
\<close>

definition is_digit :: "char \<Rightarrow> bool" where
  "is_digit c = (c \<in> set ''0123456789'')"

definition is_space :: "char \<Rightarrow> bool" where
  "is_space c = (c \<in> {CHR '' '', CHR 0x09, CHR 0x0A, CHR 0x0B, CHR 0x0C, CHR 0x0D})"

definition digits_val :: "string \<Rightarrow> nat" where
  "digits_val ds = foldl (\<lambda>a c. 10 * a + (of_char c - 48)) 0 ds"

definition scale10 :: "real \<Rightarrow> int \<Rightarrow> real" where
  "scale10 x e = (if 0 \<le> e then x * 10 ^ nat e else x / 10 ^ nat (- e))"

definition parse_exponent :: "string \<Rightarrow> int" where
  "parse_exponent s =
     (case s of
        [] \<Rightarrow> 0
      | e # r \<Rightarrow>
          if e = CHR ''e'' \<or> e = CHR ''E'' then
            (case r of
               [] \<Rightarrow> 0
             | sg # r' \<Rightarrow>
                 if sg = CHR ''+'' \<or> sg = CHR ''-'' then
                   (let ds = takeWhile is_digit r' in
                    if ds = [] then 0
                    else if sg = CHR ''-'' then - int (digits_val ds)
                    else int (digits_val ds))
                 else
                   (let ds = takeWhile is_digit r in
                    if ds = [] then 0 else int (digits_val ds)))
          else 0)"

definition parse_unsigned :: "string \<Rightarrow> number" where
  "parse_unsigned s =
     (if take 8 s = ''Infinity'' then PosInfinity
      else
        let ip = takeWhile is_digit s; r1 = dropWhile is_digit s in
        (case r1 of
           [] \<Rightarrow> if ip = [] then NaN else Num (real (digits_val ip))
         | c # r2 \<Rightarrow>
             if c = CHR ''.'' then
               (let fp = takeWhile is_digit r2; r3 = dropWhile is_digit r2 in
                if ip = [] \<and> fp = [] then NaN
                else Num (scale10 (real (digits_val ip) + real (digits_val fp) / 10 ^ length fp)
                            (parse_exponent r3)))
             else if ip = [] then NaN
             else Num (scale10 (real (digits_val ip)) (parse_exponent r1))))"

definition parseFloat :: "string option \<Rightarrow> number" where
  "parseFloat v =
     (let s = dropWhile is_space (ToString v) in
      case s of
        [] \<Rightarrow> NaN
      | c # r \<Rightarrow>
          if c = CHR ''-'' then negate (parse_unsigned r)
          else if c = CHR ''+'' then parse_unsigned r
          else parse_unsigned s)"

subsection \<open>String.prototype.replace with a string pattern\<close>

text \<open>
  \<open>s.replace(pattern, replacement)\<close> with two strings replaces the first
  occurrence of the pattern only.  The replacement text is a template: \<open>$$\<close>
  stands for a dollar sign, \<open>$&\<close> for the matched text, \<open>$`\<close> for the text
  before the match and \<open>$'\<close> for the text after it; every other character is
  copied (there are no capture groups for a string pattern).
\<close>

fun GetSubstitution :: "string \<Rightarrow> string \<Rightarrow> string \<Rightarrow> string \<Rightarrow> string" where
  "GetSubstitution matched pre post (c # d # rest) =
     (if c = CHR ''$'' \<and> d = CHR ''$'' then CHR ''$'' # GetSubstitution matched pre post rest
      else if c = CHR ''$'' \<and> d = CHR ''&'' then matched @ GetSubstitution matched pre post rest
      else if c = CHR ''$'' \<and> d = CHR 0x60 then pre @ GetSubstitution matched pre post rest
      else if c = CHR ''$'' \<and> d = CHR 0x27 then post @ GetSubstitution matched pre post rest
      else c # GetSubstitution matched pre post (d # rest))"
| "GetSubstitution matched pre post s = s"

fun split_at_first :: "string \<Rightarrow> string \<Rightarrow> (string \<times> string) option" where
  "split_at_first pat [] = (if pat = [] then Some ([], []) else None)"
| "split_at_first pat (c # cs) =
     (if take (length pat) (c # cs) = pat then Some ([], drop (length pat) (c # cs))
      else map_option (\<lambda>(pre, post). (c # pre, post)) (split_at_first pat cs))"

definition replace :: "string \<Rightarrow> string \<Rightarrow> string \<Rightarrow> string" where
  "replace s pat replacement =
     (case split_at_first pat s of
        None \<Rightarrow> s
      | Some (pre, post) \<Rightarrow> pre @ GetSubstitution pat pre post replacement @ post)"

section \<open>The image catalog and the composite\<close>

text \<open>
  An image of the catalog: the metadata the filters and the sort read, and its raster
  (the pixel at a longitude and latitude).  The footprint is a rectangle (minimum
  longitude, minimum latitude, maximum longitude, maximum latitude).  The per-image
  transform changes the raster and carries the metadata over.
\<close>

record 'v ee_image =
  system_index :: string
  system_time_start :: int
  CLOUDY_PIXEL_PERCENTAGE :: real
  footprint :: "real \<times> real \<times> real \<times> real"
  raster :: "real \<times> real \<Rightarrow> 'v pixel"

datatype geometry = Rectangle real real real real | Point number number

definition intersects :: "real \<times> real \<times> real \<times> real \<Rightarrow> geometry \<Rightarrow> bool" where
  "intersects fp g =
     (case fp of (lon0, lat0, lon1, lat1) \<Rightarrow>
        (case g of
           Rectangle a b c d \<Rightarrow> lon0 \<le> c \<and> a \<le> lon1 \<and> lat0 \<le> d \<and> b \<le> lat1
         | Point (Num x) (Num y) \<Rightarrow> lon0 \<le> x \<and> x \<le> lon1 \<and> lat0 \<le> y \<and> y \<le> lat1
         | Point _ _ \<Rightarrow> False))"

definition filterBounds :: "'v ee_image list \<Rightarrow> geometry \<Rightarrow> 'v ee_image list" where
  "filterBounds coll g = filter (\<lambda>im. intersects (footprint im) g) coll"

text \<open>\<open>filterDate(start, end)\<close>: the start is inclusive, the end exclusive.\<close>

definition filterDate :: "'v ee_image list \<Rightarrow> int \<Rightarrow> int \<Rightarrow> 'v ee_image list" where
  "filterDate coll start stop =
     filter (\<lambda>im. start \<le> system_time_start im \<and> system_time_start im < stop) coll"

text \<open>\<open>filter(ee.Filter.lt('CLOUDY_PIXEL_PERCENTAGE', limit))\<close>.\<close>

definition filter_lt_CLOUDY_PIXEL_PERCENTAGE :: "'v ee_image list \<Rightarrow> real \<Rightarrow> 'v ee_image list" where
  "filter_lt_CLOUDY_PIXEL_PERCENTAGE coll limit =
     filter (\<lambda>im. CLOUDY_PIXEL_PERCENTAGE im < limit) coll"

text \<open>\<open>collection.map(f)\<close> for a per-pixel transform \<open>f\<close>.\<close>

definition map_collection :: "('a pixel \<Rightarrow> 'b pixel) \<Rightarrow> 'a ee_image list \<Rightarrow> 'b ee_image list" where
  "map_collection f coll =
     map (\<lambda>im. \<lparr> system_index = system_index im,
                 system_time_start = system_time_start im,
                 CLOUDY_PIXEL_PERCENTAGE = CLOUDY_PIXEL_PERCENTAGE im,
                 footprint = footprint im,
                 raster = (\<lambda>p. f (raster im p)) \<rparr>) coll"

text \<open>
  \<open>sort('system:time_start', ascending)\<close>.  Images with equal keys keep their
  catalog order.
\<close>

definition sort_system_time_start :: "'v ee_image list \<Rightarrow> bool \<Rightarrow> 'v ee_image list" where
  "sort_system_time_start coll ascending =
     (if ascending then sort_key system_time_start coll
      else sort_key (\<lambda>im. - system_time_start im) coll)"

text \<open>\<open>first()\<close>: the first image, or the null image of an empty collection.\<close>

definition first :: "'v ee_image list \<Rightarrow> 'v ee_image option" where
  "first coll = (case coll of [] \<Rightarrow> None | im # _ \<Rightarrow> Some im)"

subsection \<open>The normalized difference\<close>

text \<open>
  Modelled from the spec: the backend's \<open>normalizedDifference\<close> is not part of the
  repository.  Section 4.3 gives it as (first - second) / (first + second) of the two
  named bands, with a zero denominator left to the backend as undefined and
  propagated as no data; a masked pixel stays masked.
\<close>

definition normalizedDifference :: "real pixel \<Rightarrow> string list \<Rightarrow> real option" where
  "normalizedDifference img names =
     (case (img, names) of
        (Some bands, [n1, n2]) \<Rightarrow>
          (let a = bands n1; b = bands n2 in
           if a + b = 0 then None else Some ((a - b) / (a + b)))
      | _ \<Rightarrow> None)"


text \<open>
  \<open>reduceRegion\<close> over a point geometry at the sensor's scale reads the one pixel
  under the point, so the \<open>first\<close> and the \<open>mean\<close> reducer give the same value
  (\<open>Some None\<close> is the \<open>null\<close> of a masked pixel).  The argument is the
  single-band raster of the index.  The handlers reduce over points only; a point
  whose coordinates are not finite is no geometry the backend can evaluate
  (\<open>None\<close>).
\<close>

definition reduceRegion :: "(real \<times> real \<Rightarrow> real option) \<Rightarrow> geometry \<Rightarrow> real option option" where
  "reduceRegion band g =
     (case g of Point (Num lon) (Num lat) \<Rightarrow> Some (band (lon, lat)) | _ \<Rightarrow> None)"

text \<open>\<open>ee.Date(t).advance(delta, 'day')\<close> on a time in milliseconds.\<close>

definition advance_day :: "int \<Rightarrow> int \<Rightarrow> int" where
  "advance_day t delta = t + delta * 86400000"

section \<open>Requests, responses and the world outside a handler\<close>

datatype json = JNull | JBool bool | JNum real | JStr string
  | JArr "json list" | JObj "(string \<times> json) list"

text \<open>\<open>!v\<close> is \<open>\<not> truthy v\<close>; a field that is absent is \<open>undefined\<close>.\<close>

definition truthy :: "json option \<Rightarrow> bool" where
  "truthy v =
     (case v of
        None \<Rightarrow> False
      | Some JNull \<Rightarrow> False
      | Some (JBool b) \<Rightarrow> b
      | Some (JNum x) \<Rightarrow> x \<noteq> 0
      | Some (JStr s) \<Rightarrow> s \<noteq> []
      | Some (JArr _) \<Rightarrow> True
      | Some (JObj _) \<Rightarrow> True)"

text \<open>
  What a promise is rejected with: an \<open>Error\<close> object carrying a message, or a
  raw value that has no \<open>message\<close> property.
\<close>

datatype js_error = Error string | Raw string

definition message :: "js_error \<Rightarrow> string option" where
  "message e = (case e of Error m \<Rightarrow> Some m | Raw _ \<Rightarrow> None)"

text \<open>The text of \<open>`${err}`\<close>.\<close>

definition error_text :: "js_error \<Rightarrow> string" where
  "error_text e = (case e of Error m \<Rightarrow> ''Error: '' @ m | Raw s \<Rightarrow> s)"

record request =
  http_method :: string
  query :: "string \<rightharpoonup> string"
  headers :: "string \<rightharpoonup> string"
  body :: "(string \<rightharpoonup> json) option"
  raw_body :: string

datatype response =
    Json nat "(string \<times> json) list"
  | Redirect nat string
  | End nat
  | Send nat string
  | Proxied nat "(string \<times> string) list" string

text \<open>
  The request a proxying handler sends to the tile server (\<open>target\<close> is the URL
  whose host name and path \<open>url.parse\<close> extracts), and the tile server's answer.
\<close>

record upstream_request =
  target :: string
  up_method :: string
  up_headers :: "(string \<times> string) list"
  up_body :: string

record upstream_response =
  statusCode :: nat
  resp_headers :: "(string \<times> string) list"
  resp_body :: string

text \<open>What a handler does that is visible outside it, in the order it happens.\<close>

datatype event =
    ReadEnv string
  | Authenticate json
  | Initialize "string option"
  | GetMap
  | EvaluateIndex
  | EvaluateValue
  | HttpsRequest upstream_request

text \<open>
  Everything a handler reads but does not decide: the process environment, the clock,
  the catalog, and how each remote call ends.  \<open>unevaluable_error\<close> is the error,
  if any, that the backend reports for an expression it cannot evaluate (one over the
  null image of an empty collection, or over a point without finite coordinates);
  without one it reports \<open>null\<close>.
\<close>

record world =
  process_env :: "string \<rightharpoonup> string"
  JSON_parse :: "string \<Rightarrow> string + json"
  now :: int
  advance_month :: "int \<Rightarrow> int \<Rightarrow> int"
  catalog :: "int ee_image list"
  auth_failure :: "js_error option"
  init_failure :: "js_error option"
  getMap_reply :: "(real \<times> real \<Rightarrow> real option) option \<Rightarrow> string + string"
  unevaluable_error :: "string option"
  index_failure :: "string option"
  number_failure :: "string option"
  tile_server :: "upstream_request \<Rightarrow> string + upstream_response"
  redirect_default_status :: nat
  recommend :: "(string \<rightharpoonup> json) \<Rightarrow> js_error + string"

section \<open>The session\<close>

text \<open>
  \<^verbatim>\<open>
  const authenticateAndInitialize = () => new Promise((resolve, reject) => {
      const privateKey = JSON.parse(process.env.GEE_PRIVATE_KEY_JSON);
      const projectId = process.env.GEE_PROJECT_ID;
      ee.data.authenticateViaPrivateKey(privateKey,
          () => ee.initialize(null, null, resolve, reject, null, projectId),
          (err) => reject(new Error(`GEE Authentication failed: ${err}`))
      );
  });
  \<close>
  An exception thrown in the executor (by \<open>JSON.parse\<close>) rejects the promise.
  \<open>wrap\<close> is what the failure callback of the authentication passes to
  \<open>reject\<close>.
\<close>

definition establish :: "world \<Rightarrow> (js_error \<Rightarrow> js_error) \<Rightarrow> event list \<times> (js_error + unit)" where
  "establish w wrap =
     (case JSON_parse w (ToString (process_env w ''GEE_PRIVATE_KEY_JSON'')) of
        Inl syntax_error \<Rightarrow> ([ReadEnv ''GEE_PRIVATE_KEY_JSON''], Inl (Error syntax_error))
      | Inr privateKey \<Rightarrow>
          (let projectId = process_env w ''GEE_PROJECT_ID'';
               evs = [ReadEnv ''GEE_PRIVATE_KEY_JSON'', ReadEnv ''GEE_PROJECT_ID'',
                      Authenticate privateKey]
           in case auth_failure w of
                Some err \<Rightarrow> (evs, Inl (wrap err))
              | None \<Rightarrow>
                  (case init_failure w of
                     Some err \<Rightarrow> (evs @ [Initialize projectId], Inl err)
                   | None \<Rightarrow> (evs @ [Initialize projectId], Inr ()))))"

definition authenticateAndInitialize :: "world \<Rightarrow> event list \<times> (js_error + unit)" where
  "authenticateAndInitialize w =
     establish w (\<lambda>err. Error (''GEE Authentication failed: '' @ error_text err))"

text \<open>
  \<open>initializeEe\<close> of the two older handlers differs only in passing \<open>reject\<close>
  itself as the failure callback.
\<close>

definition initializeEe :: "world \<Rightarrow> event list \<times> (js_error + unit)" where
  "initializeEe w = establish w (\<lambda>err. err)"

section \<open>The tile handlers\<close>

text \<open>
  \<^verbatim>\<open>
  const recentImage = s2
      .filterBounds(regionOfInterest)
      .filterDate(ee.Date(Date.now()).advance(-120, 'day'), ee.Date(Date.now()))
      .filter(ee.Filter.lt('CLOUDY_PIXEL_PERCENTAGE', 20))
      .map(maskS2clouds)
      .sort('system:time_start', false)
      .first();
  return recentImage.normalizedDifference(['B8', 'B4']).rename('NDVI');
  \<close>
\<close>

definition candidates :: "world \<Rightarrow> real ee_image list" where
  "candidates w =
     (let regionOfInterest = Rectangle 45 40 90 56; s2 = catalog w in
      map_collection maskS2clouds
        (filter_lt_CLOUDY_PIXEL_PERCENTAGE
          (filterDate (filterBounds s2 regionOfInterest) (advance_day (now w) (- 120)) (now w))
          20))"

definition recentImage :: "world \<Rightarrow> real ee_image option" where
  "recentImage w = first (sort_system_time_start (candidates w) False)"

text \<open>The index band of a composite; the null image has none.\<close>

definition ndvi_band :: "real ee_image option \<Rightarrow> (real \<times> real \<Rightarrow> real option) option" where
  "ndvi_band composite =
     map_option (\<lambda>im p. normalizedDifference (raster im p) [''B8'', ''B4'']) composite"

definition getNdviImage :: "world \<Rightarrow> (real \<times> real \<Rightarrow> real option) option" where
  "getNdviImage w = ndvi_band (recentImage w)"

text \<open>
  The older tile and value handlers search the whole catalog over three months:
  \<^verbatim>\<open>
  return s2
      .filterDate(ee.Date(Date.now()).advance(-3, 'month'), ee.Date(Date.now()))
      .filter(ee.Filter.lt('CLOUDY_PIXEL_PERCENTAGE', 20))
      .map(maskS2clouds)
      .sort('system:time_start', false)
      .first()
      .normalizedDifference(['B8', 'B4']).rename('NDVI');
  \<close>
\<close>

definition candidates_global :: "world \<Rightarrow> real ee_image list" where
  "candidates_global w =
     map_collection maskS2clouds
       (filter_lt_CLOUDY_PIXEL_PERCENTAGE
         (filterDate (catalog w) (advance_month w (now w) (- 3)) (now w))
         20)"

definition getNdviImage_global :: "world \<Rightarrow> (real \<times> real \<Rightarrow> real option) option" where
  "getNdviImage_global w =
     ndvi_band (first (sort_system_time_start (candidates_global w) False))"

text \<open>
  \<^verbatim>\<open>
  const getMapId = (image, visParams) => new Promise((resolve, reject) => {
      image.getMap(visParams, (mapId, error) => {
          if (error) return reject(new Error(error));
          resolve(mapId);
      });
  });
  \<close>
  The result is the \<open>urlFormat\<close> of the map id.
\<close>

definition getMapId :: "world \<Rightarrow> (real \<times> real \<Rightarrow> real option) option
    \<Rightarrow> event list \<times> (js_error + string)" where
  "getMapId w img =
     (case getMap_reply w img of
        Inl err \<Rightarrow> ([GetMap], Inl (Error err))
      | Inr urlFormat \<Rightarrow> ([GetMap], Inr urlFormat))"

text \<open>
  \<^verbatim>\<open>
  const { x, y, z } = req.query;
  const tileUrl = mapId.urlFormat.replace('{x}', x).replace('{y}', y).replace('{z}', z);
  \<close>
\<close>

definition tileUrl :: "string \<Rightarrow> (string \<rightharpoonup> string) \<Rightarrow> string" where
  "tileUrl urlFormat q =
     replace (replace (replace urlFormat ''{x}'' (ToString (q ''x'')))
                ''{y}'' (ToString (q ''y'')))
       ''{z}'' (ToString (q ''z''))"

text \<open>The answer of the \<open>catch\<close> block of the three tile handlers.\<close>

definition tile_failure :: "js_error \<Rightarrow> response" where
  "tile_failure e =
     Json 500 ((''error'', JStr ''Failed to generate GEE map tiles.'')
               # (case message e of None \<Rightarrow> [] | Some m \<Rightarrow> [(''details'', JStr m)]))"

text \<open>The redirecting tile handler: \<open>res.redirect(302, tileUrl)\<close>.\<close>

definition gee_tiles_redirect :: "world \<Rightarrow> request \<Rightarrow> response \<times> event list" where
  "gee_tiles_redirect w req =
     (case authenticateAndInitialize w of
        (evs, Inl e) \<Rightarrow> (tile_failure e, evs)
      | (evs, Inr _) \<Rightarrow>
          (case getMapId w (getNdviImage w) of
             (evs', Inl e) \<Rightarrow> (tile_failure e, evs @ evs')
           | (evs', Inr urlFormat) \<Rightarrow>
               (Redirect 302 (tileUrl urlFormat (query req)), evs @ evs')))"

text \<open>
  The proxying tile handler:
  \<^verbatim>\<open>
  const options = {
      hostname: parsedUrl.hostname, path: parsedUrl.path, method: 'GET',
      headers: { 'User-Agent': req.headers['user-agent'] }
  };
  const proxyReq = https.request(options, (proxyRes) => {
      res.writeHead(proxyRes.statusCode, proxyRes.headers);
      proxyRes.pipe(res, { end: true });
  });
  req.pipe(proxyReq, { end: true });
  proxyReq.on('error', (e) => {
      res.status(500).send('Failed to proxy tile request');
  });
  \<close>
  \<open>https.request\<close> throws on a header whose value is \<open>undefined\<close>, which the
  \<open>catch\<close> block answers.
\<close>

definition gee_tiles_proxy :: "world \<Rightarrow> request \<Rightarrow> response \<times> event list" where
  "gee_tiles_proxy w req =
     (case authenticateAndInitialize w of
        (evs, Inl e) \<Rightarrow> (tile_failure e, evs)
      | (evs, Inr _) \<Rightarrow>
          (case getMapId w (getNdviImage w) of
             (evs', Inl e) \<Rightarrow> (tile_failure e, evs @ evs')
           | (evs', Inr urlFormat) \<Rightarrow>
               (case headers req ''user-agent'' of
                  None \<Rightarrow>
                    (tile_failure (Error ''Invalid value undefined for header User-Agent''),
                     evs @ evs')
                | Some ua \<Rightarrow>
                    (let options = \<lparr> target = tileUrl urlFormat (query req),
                                       up_method = ''GET'',
                                       up_headers = [(''User-Agent'', ua)],
                                       up_body = raw_body req \<rparr>
                     in case tile_server w options of
                          Inl e \<Rightarrow>
                            (Send 500 ''Failed to proxy tile request'',
                             evs @ evs' @ [HttpsRequest options])
                        | Inr proxyRes \<Rightarrow>
                            (Proxied (statusCode proxyRes) (resp_headers proxyRes)
                               (resp_body proxyRes),
                             evs @ evs' @ [HttpsRequest options])))))"

text \<open>
  The oldest tile handler redirects to the template itself:
  \<open>res.redirect(mapId.urlFormat)\<close>, with the platform's default status.
\<close>

definition gee_tiles_legacy :: "world \<Rightarrow> request \<Rightarrow> response \<times> event list" where
  "gee_tiles_legacy w req =
     (case initializeEe w of
        (evs, Inl e) \<Rightarrow> (tile_failure e, evs)
      | (evs, Inr _) \<Rightarrow>
          (case getMapId w (getNdviImage_global w) of
             (evs', Inl e) \<Rightarrow> (tile_failure e, evs @ evs')
           | (evs', Inr urlFormat) \<Rightarrow>
               (Redirect (redirect_default_status w) urlFormat, evs @ evs')))"

section \<open>The point-value handlers\<close>

text \<open>
  The two remote evaluations of the point path.  The callback of
  \<open>image.get('system:index').evaluate\<close> receives an id and an error, that of
  \<open>ndviValue.evaluate\<close> a result and an error.  The argument of
  \<open>evaluate_number\<close> is \<open>None\<close> for an expression the backend cannot
  evaluate and otherwise the reduced value (\<open>Some None\<close> is \<open>null\<close>).
\<close>

definition evaluate_index :: "world \<Rightarrow> 'v ee_image option \<Rightarrow> string option \<times> string option" where
  "evaluate_index w img =
     (case index_failure w of
        Some e \<Rightarrow> (None, Some e)
      | None \<Rightarrow>
          (case img of
             None \<Rightarrow> (None, unevaluable_error w)
           | Some im \<Rightarrow> (Some (system_index im), None)))"

definition evaluate_number :: "world \<Rightarrow> real option option \<Rightarrow> real option \<times> string option" where
  "evaluate_number w expr =
     (case number_failure w of
        Some e \<Rightarrow> (None, Some e)
      | None \<Rightarrow>
          (case expr of
             None \<Rightarrow> (None, unevaluable_error w)
           | Some v \<Rightarrow> (v, None)))"

text \<open>
  \<^verbatim>\<open>
  const runAnalysis = (lat, lon) => new Promise((resolve, reject) => {
      const point = ee.Geometry.Point([lon, lat]);
      const s2 = ee.ImageCollection('COPERNICUS/S2_SR_HARMONIZED');
      ...
      const image = s2
          .filterBounds(point)
          .filterDate(ee.Date(Date.now()).advance(-120, 'day'), ee.Date(Date.now()))
          .filter(ee.Filter.lt('CLOUDY_PIXEL_PERCENTAGE', 20))
          .map(maskS2clouds)
          .sort('system:time_start', false) // Get the most recent
          .first();
      // Pre-flight check: Ensure an image was found before doing more work
      image.get('system:index').evaluate((id, err) => {
          if (err || !id) {
              return reject(new Error('No recent cloud-free image found for this location.'));
          }
          const ndvi = image.normalizedDifference(['B8', 'B4']).rename('NDVI');
          const ndviValue = ndvi.reduceRegion({
              reducer: ee.Reducer.first(), geometry: point, scale: 10
          }).get('NDVI');
          ndviValue.evaluate((result, error) => {
              if (error) {
                  reject(new Error(`GEE Evaluation Error: ${error}`));
              } else if (result === null || typeof result === 'undefined') {
                  reject(new Error('Point may be in water or an area with no data.'));
              } else {
                  resolve({ ndvi: result });
              }
          });
      });
  });
  \<close>
\<close>

definition candidates_at :: "world \<Rightarrow> geometry \<Rightarrow> real ee_image list" where
  "candidates_at w point =
     (let s2 = catalog w in
      map_collection maskS2clouds
        (filter_lt_CLOUDY_PIXEL_PERCENTAGE
          (filterDate (filterBounds s2 point) (advance_day (now w) (- 120)) (now w))
          20))"

definition NoImageFound :: string where
  "NoImageFound = ''No recent cloud-free image found for this location.''"

definition NoDataAtLocation :: string where
  "NoDataAtLocation = ''Point may be in water or an area with no data.''"

definition runAnalysis :: "world \<Rightarrow> number \<Rightarrow> number \<Rightarrow> event list \<times> (js_error + real)" where
  "runAnalysis w lat lon =
     (let point = Point lon lat;
          img = first (sort_system_time_start (candidates_at w point) False)
      in case evaluate_index w img of
           (ident, err) \<Rightarrow>
             if \<not> falsy err \<or> falsy ident then ([EvaluateIndex], Inl (Error NoImageFound))
             else
               (let ndvi = ndvi_band img;
                    ndviValue = Option.bind ndvi (\<lambda>band. reduceRegion band point)
                in case evaluate_number w ndviValue of
                     (result, error) \<Rightarrow>
                       if \<not> falsy error then
                         ([EvaluateIndex, EvaluateValue],
                          Inl (Error (''GEE Evaluation Error: '' @ ToString error)))
                       else
                         (case result of
                            None \<Rightarrow> ([EvaluateIndex, EvaluateValue], Inl (Error NoDataAtLocation))
                          | Some v \<Rightarrow> ([EvaluateIndex, EvaluateValue], Inr v))))"

text \<open>
  The handler of \<open>lat\<close> and \<open>lon\<close>:
  \<^verbatim>\<open>
  if (req.method === 'OPTIONS') { return res.status(200).end(); }
  try {
      const lat = parseFloat(req.query.lat);
      const lon = parseFloat(req.query.lon);
      if (isNaN(lat) || isNaN(lon)) {
          return res.status(400).json({ error: 'Invalid or missing coordinates.' });
      }
      await authenticateAndInitialize();
      const data = await runAnalysis(lat, lon);
      res.status(200).json(data);
  } catch (error) {
      res.status(500).json({ error: error.message || 'An internal server error occurred.' });
  }
  \<close>
\<close>

definition value_failure :: "js_error \<Rightarrow> response" where
  "value_failure e =
     Json 500 [(''error'',
                JStr (if falsy (message e) then ''An internal server error occurred.''
                      else the (message e)))]"

definition gee_value :: "world \<Rightarrow> request \<Rightarrow> response \<times> event list" where
  "gee_value w req =
     (if http_method req = ''OPTIONS'' then (End 200, [])
      else
        let lat = parseFloat (query req ''lat'');
            lon = parseFloat (query req ''lon'')
        in if isNaN lat \<or> isNaN lon
           then (Json 400 [(''error'', JStr ''Invalid or missing coordinates.'')], [])
           else
             (case authenticateAndInitialize w of
                (evs, Inl e) \<Rightarrow> (value_failure e, evs)
              | (evs, Inr _) \<Rightarrow>
                  (case runAnalysis w lat lon of
                     (evs', Inl e) \<Rightarrow> (value_failure e, evs @ evs')
                   | (evs', Inr v) \<Rightarrow> (Json 200 [(''ndvi'', JNum v)], evs @ evs'))))"

text \<open>
  The older handler of \<open>lat\<close> and \<open>lng\<close>:
  \<^verbatim>\<open>
  const { lat, lng } = req.query;
  if (!lat || !lng) {
      return res.status(400).json({ error: 'Latitude (lat) and Longitude (lng) are required.' });
  }
  try {
      await initializeEe();
      const image = getNdviImage();
      const point = ee.Geometry.Point(parseFloat(lng), parseFloat(lat));
      const data = image.reduceRegion({
          reducer: ee.Reducer.mean(), geometry: point, scale: 10
      }).get('NDVI');
      const result = await evaluate(data);
      res.status(200).json({ ndvi: result });
  } catch (error) {
      res.status(500).json({ error: 'Failed to get GEE value.', details: error.message });
  }
  \<close>
  with
  \<^verbatim>\<open>
  data.evaluate((result, error) => {
      if (error) { return reject(new Error(error)); }
      resolve(result);
  });
  \<close>
\<close>

definition evaluate :: "world \<Rightarrow> real option option \<Rightarrow> event list \<times> (js_error + real option)" where
  "evaluate w data =
     (case evaluate_number w data of
        (result, error) \<Rightarrow>
          if \<not> falsy error then ([EvaluateValue], Inl (Error (ToString error)))
          else ([EvaluateValue], Inr result))"

definition legacy_failure :: "js_error \<Rightarrow> response" where
  "legacy_failure e =
     Json 500 ((''error'', JStr ''Failed to get GEE value.'')
               # (case message e of None \<Rightarrow> [] | Some m \<Rightarrow> [(''details'', JStr m)]))"

definition gee_value_legacy :: "world \<Rightarrow> request \<Rightarrow> response \<times> event list" where
  "gee_value_legacy w req =
     (let lat = query req ''lat''; lng = query req ''lng'' in
      if falsy lat \<or> falsy lng
      then (Json 400 [(''error'', JStr ''Latitude (lat) and Longitude (lng) are required.'')], [])
      else
        (case initializeEe w of
           (evs, Inl e) \<Rightarrow> (legacy_failure e, evs)
         | (evs, Inr _) \<Rightarrow>
             (let img = getNdviImage_global w;
                  point = Point (parseFloat lng) (parseFloat lat);
                  data = Option.bind img (\<lambda>band. reduceRegion band point)
              in case evaluate w data of
                   (evs', Inl e) \<Rightarrow> (legacy_failure e, evs @ evs')
                 | (evs', Inr result) \<Rightarrow>
                     (Json 200 [(''ndvi'', (case result of None \<Rightarrow> JNull | Some v \<Rightarrow> JNum v))],
                      evs @ evs'))))"

section \<open>The recommendation handler\<close>

text \<open>
  \<^verbatim>\<open>
  if (req.method === 'OPTIONS') { return res.status(200).end(); }
  if (req.method !== 'POST') {
      return res.status(405).json({ error: 'Method Not Allowed' });
  }
  try {
      const { lat, lon, ndvi, weatherData, lang } = req.body;
      if (!lat || !lon || !ndvi || !weatherData) {
          return res.status(400).json({ error: 'Missing required data: lat, lon, ndvi, and weatherData are required.' });
      }
      const openAiApiKey = process.env.OPENAI_API_KEY;
      if (!openAiApiKey) {
          return res.status(500).json({ error: 'Server configuration error: Missing OpenAI API key.' });
      }
      const prompt = createPromptForAgronomist(lat, lon, ndvi, weatherData, lang);
      const recommendation = await getOpenAiRecommendation(prompt, openAiApiKey);
      res.status(200).json({ recommendation });
  } catch (error) {
      res.status(500).json({ error: 'Failed to get recommendation.', details: error.message });
  }
  \<close>
  Building the prompt and calling the text backend are one step of the world
  (\<open>recommend\<close>), which ends with the text or with what was thrown.  Destructuring
  a body that is absent throws a \<open>TypeError\<close>.
\<close>

definition MissingRequiredData :: response where
  "MissingRequiredData =
     Json 400 [(''error'',
       JStr ''Missing required data: lat, lon, ndvi, and weatherData are required.'')]"

definition recommendation_failure :: "js_error \<Rightarrow> response" where
  "recommendation_failure e =
     Json 500 ((''error'', JStr ''Failed to get recommendation.'')
               # (case message e of None \<Rightarrow> [] | Some m \<Rightarrow> [(''details'', JStr m)]))"

definition get_recommendations :: "world \<Rightarrow> request \<Rightarrow> response \<times> event list" where
  "get_recommendations w req =
     (if http_method req = ''OPTIONS'' then (End 200, [])
      else if http_method req \<noteq> ''POST''
      then (Json 405 [(''error'', JStr ''Method Not Allowed'')], [])
      else
        (case body req of
           None \<Rightarrow>
             (recommendation_failure
                (Error ''Cannot destructure property lat of req.body as it is undefined.''), [])
         | Some flds \<Rightarrow>
             if \<not> truthy (flds ''lat'') \<or> \<not> truthy (flds ''lon'')
                \<or> \<not> truthy (flds ''ndvi'') \<or> \<not> truthy (flds ''weatherData'')
             then (MissingRequiredData, [])
             else if falsy (process_env w ''OPENAI_API_KEY'')
             then (Json 500 [(''error'',
                     JStr ''Server configuration error: Missing OpenAI API key.'')],
                   [ReadEnv ''OPENAI_API_KEY''])
             else
               (case recommend w flds of
                  Inl e \<Rightarrow> (recommendation_failure e, [ReadEnv ''OPENAI_API_KEY''])
                | Inr txt \<Rightarrow>
                    (Json 200 [(''recommendation'', JStr txt)], [ReadEnv ''OPENAI_API_KEY'']))))"

section \<open>A process serving requests\<close>





section \<open>Filling a tile template\<close>

text \<open>
  Following the words of the tile service's description: a template holds single-use
  placeholders for zoom, x and y, and each is to be replaced by the request's value.
  \<open>occurrences\<close> counts the places where a pattern starts in a text, and \<open>fill\<close>
  replaces every placeholder by its value in one pass from left to right.  A value
  is \<open>plain\<close> when it is not empty and has none of the characters of a
  placeholder and no dollar sign; every decimal number is plain.
\<close>

fun occurrences :: "string \<Rightarrow> string \<Rightarrow> nat" where
  "occurrences pat [] = 0"
| "occurrences pat (c # cs) =
     (if take (length pat) (c # cs) = pat then 1 else 0) + occurrences pat cs"

fun fill :: "string \<Rightarrow> string \<Rightarrow> string \<Rightarrow> string \<Rightarrow> string" where
  "fill vx vy vz (a # k # b # rest) =
     (if a = CHR ''{'' \<and> k = CHR ''x'' \<and> b = CHR ''}'' then vx @ fill vx vy vz rest
      else if a = CHR ''{'' \<and> k = CHR ''y'' \<and> b = CHR ''}'' then vy @ fill vx vy vz rest
      else if a = CHR ''{'' \<and> k = CHR ''z'' \<and> b = CHR ''}'' then vz @ fill vx vy vz rest
      else a # fill vx vy vz (k # b # rest))"
| "fill vx vy vz s = s"

text \<open>The placeholder of a coordinate letter, as in \<open>{x}\<close>.\<close>

definition placeholder :: "char \<Rightarrow> string" where
  "placeholder k = [CHR ''{'', k, CHR ''}'']"

definition plain :: "string \<Rightarrow> bool" where
  "plain v = (v \<noteq> [] \<and> list_all (\<lambda>c. c \<notin> set ''{}$xyz'') v)"

definition no_placeholder :: "string \<Rightarrow> bool" where
  "no_placeholder u =
     (occurrences ''{x}'' u = 0 \<and> occurrences ''{y}'' u = 0 \<and> occurrences ''{z}'' u = 0)"

section \<open>Numeric text\<close>





section \<open>Example inputs\<close>

text \<open>
  A catalog image of constant pixels over a footprint near Almaty, a world in which
  every remote call succeeds, and a request that carries every parameter the
  handlers read.  The theorems below are instantiated on them and on variations.
\<close>

definition example_bands :: "string \<Rightarrow> int" where
  "example_bands name =
     (if name = ''B8'' then 3000 else if name = ''B4'' then 1000 else 0)"

definition scene :: "string \<Rightarrow> int \<Rightarrow> (string \<Rightarrow> int) \<Rightarrow> int ee_image" where
  "scene idx t bands =
     \<lparr> system_index = idx, system_time_start = t, CLOUDY_PIXEL_PERCENTAGE = 3,
       footprint = (76, 43, 77.4, 44), raster = (\<lambda>p. Some bands) \<rparr>"

definition dark_bands :: "string \<Rightarrow> int" where
  "dark_bands name = 0"

definition cloudy_bands :: "string \<Rightarrow> int" where
  "cloudy_bands name = (if name = ''QA60'' then 1024 else example_bands name)"

definition example_world :: world where
  "example_world =
     \<lparr> process_env = [''GEE_PRIVATE_KEY_JSON'' \<mapsto> ''{}'', ''GEE_PROJECT_ID'' \<mapsto> ''demo''],
       JSON_parse = (\<lambda>s. if s = ''{}'' then Inr (JObj []) else Inl ''Unexpected token''),
       now = 1719800000000,
       advance_month = (\<lambda>t d. t + d * 2592000000),
       catalog = [scene ''S2A_1'' 1717221991000 example_bands],
       auth_failure = None,
       init_failure = None,
       getMap_reply = (\<lambda>_. Inr ''https://t.example/{z}/{x}/{y}''),
       unevaluable_error = Some ''Parameter is required.'',
       index_failure = None,
       number_failure = None,
       tile_server = (\<lambda>r. Inr \<lparr> statusCode = 200,
                                  resp_headers = [(''content-type'', ''image/png'')],
                                  resp_body = ''PNG'' \<rparr>),
       redirect_default_status = 307,
       recommend = (\<lambda>_. Inr ''Irrigate.'') \<rparr>"

definition example_request :: request where
  "example_request =
     \<lparr> http_method = ''GET'',
       query = [''lat'' \<mapsto> ''43.25'', ''lon'' \<mapsto> ''76.9'', ''lng'' \<mapsto> ''76.9'',
                ''x'' \<mapsto> ''10'', ''y'' \<mapsto> ''3'', ''z'' \<mapsto> ''5''],
       headers = [''user-agent'' \<mapsto> ''Leaflet/1.9''],
       body = None,
       raw_body = [] \<rparr>"




section \<open>Properties\<close>

lemmas ee_defs = candidates_at_def candidates_def candidates_global_def filterBounds_def
  intersects_def filterDate_def advance_day_def filter_lt_CLOUDY_PIXEL_PERCENTAGE_def
  map_collection_def sort_system_time_start_def first_def maskS2clouds_def select_def
  bitwiseAnd_def eq_def and_ee_def updateMask_def divide_def cloudBitMask_def
  cirrusBitMask_def ndvi_band_def normalizedDifference_def reduceRegion_def
  evaluate_index_def evaluate_number_def falsy_def ToString_def recentImage_def
  getNdviImage_def getNdviImage_global_def

lemmas js_defs = parseFloat_def is_space_def parse_unsigned_def is_digit_def digits_val_def
  scale10_def parse_exponent_def isNaN_def

lemmas ex_defs = example_world_def example_request_def scene_def example_bands_def
  dark_bands_def cloudy_bands_def

subsection \<open>The cloud mask\<close>

lemma and_cloudBitMask: "(q AND cloudBitMask = 0) = (\<not> bit q 10)"
  unfolding cloudBitMask_def
  by (simp only: push_bit_of_1 and_exp_eq_0_iff_not_bit)

lemma and_cirrusBitMask: "(q AND cirrusBitMask = 0) = (\<not> bit q 11)"
  unfolding cirrusBitMask_def
  by (simp only: push_bit_of_1 and_exp_eq_0_iff_not_bit)

text \<open>
  C1.  For every value of the quality band QA60 of a valid raw pixel, the cloud mask
  keeps the pixel exactly when bit 10 (opaque cloud) and bit 11 (cirrus) are both
  zero, whatever the other bits are, and a kept pixel carries every raw band value
  divided by 10000; any other pixel is masked out.
\<close>

theorem maskS2clouds_retains_iff_clear:
  "maskS2clouds (Some raw) =
     (if \<not> bit (raw ''QA60'') 10 \<and> \<not> bit (raw ''QA60'') 11
      then Some (\<lambda>name. real_of_int (raw name) / 10000)
      else None)"
  by (simp add: maskS2clouds_def select_def bitwiseAnd_def eq_def and_ee_def
      updateMask_def divide_def and_cloudBitMask and_cirrusBitMask)


subsection \<open>The composite\<close>




subsection \<open>The vegetation index\<close>


lemma runAnalysis_no_data:
  assumes "index_failure w = None" and "number_failure w = None"
    and "first (sort_system_time_start (candidates_at w (Point (Num lon) (Num lat))) False) = Some im"
    and "system_index im \<noteq> []"
    and "normalizedDifference (raster im (lon, lat)) [''B8'', ''B4''] = None"
  shows "runAnalysis w (Num lat) (Num lon) =
           ([EvaluateIndex, EvaluateValue], Inl (Error NoDataAtLocation))"
  using assms
  by (simp add: runAnalysis_def Let_def evaluate_index_def evaluate_number_def falsy_def
      ndvi_band_def reduceRegion_def)




subsection \<open>Evaluating the handlers on the example world\<close>

lemma session_example:
  "authenticateAndInitialize example_world =
     ([ReadEnv ''GEE_PRIVATE_KEY_JSON'', ReadEnv ''GEE_PROJECT_ID'', Authenticate (JObj []),
       Initialize (Some ''demo'')], Inr ())"
  by (simp add: authenticateAndInitialize_def establish_def example_world_def ToString_def)

lemma getMapId_example:
  "getMapId example_world img =
     ([GetMap], Inr ''https://t.example/{z}/{x}/{y}'')"
  by (simp add: getMapId_def example_world_def)

lemma tileUrl_example:
  "tileUrl ''https://t.example/{z}/{x}/{y}'' (query example_request) =
     ''https://t.example/5/10/3''"
  apply (simp add: tileUrl_def ToString_def example_request_def)
  apply (simp add: replace_def)
  done

lemma example_request_fields:
  "headers example_request ''user-agent'' = Some ''Leaflet/1.9''"
  "raw_body example_request = []"
  "http_method example_request = ''GET''"
  by (simp_all add: example_request_def)

lemma tile_server_example:
  "tile_server example_world r =
     Inr \<lparr> statusCode = 200, resp_headers = [(''content-type'', ''image/png'')],
           resp_body = ''PNG'' \<rparr>"
  by (simp add: example_world_def)

lemma proxy_example:
  "gee_tiles_proxy example_world example_request =
     (Proxied 200 [(''content-type'', ''image/png'')] ''PNG'',
      [ReadEnv ''GEE_PRIVATE_KEY_JSON'', ReadEnv ''GEE_PROJECT_ID'', Authenticate (JObj []),
       Initialize (Some ''demo''), GetMap,
       HttpsRequest \<lparr> target = ''https://t.example/5/10/3'',
                       up_method = ''GET'', up_headers = [(''User-Agent'', ''Leaflet/1.9'')],
                       up_body = [] \<rparr>])"
  by (simp add: gee_tiles_proxy_def session_example getMapId_example tileUrl_example
      example_request_fields tile_server_example)

subsection \<open>The recommendation handler\<close>

text \<open>
  C10.  A POST to the recommendation handler whose body has \<open>lat\<close>, \<open>lon\<close> or
  \<open>ndvi\<close> equal to the number 0 is answered with status 400 and the message that
  required data is missing, before the environment is read or the text backend is
  called: the presence test is JavaScript truthiness, and 0 is falsy.
\<close>

theorem zero_is_missing_required_data:
  assumes "http_method req = ''POST''" and "body req = Some flds"
    and "flds ''lat'' = Some (JNum 0) \<or> flds ''lon'' = Some (JNum 0) \<or> flds ''ndvi'' = Some (JNum 0)"
  shows "get_recommendations w req = (MissingRequiredData, [])"
  using assms by (auto simp add: get_recommendations_def truthy_def)

theorem zero_is_missing_required_data_witness:
  "http_method (example_request\<lparr>http_method := ''POST'',
      body := Some [''lat'' \<mapsto> JNum 0, ''lon'' \<mapsto> JNum 76.9, ''ndvi'' \<mapsto> JNum 0.5,
                    ''weatherData'' \<mapsto> JObj []]\<rparr>) = ''POST''
   \<and> get_recommendations example_world
       (example_request\<lparr>http_method := ''POST'',
          body := Some [''lat'' \<mapsto> JNum 0, ''lon'' \<mapsto> JNum 76.9, ''ndvi'' \<mapsto> JNum 0.5,
                        ''weatherData'' \<mapsto> JObj []]\<rparr>)
     = (Json 400 [(''error'',
          JStr ''Missing required data: lat, lon, ndvi, and weatherData are required.'')], [])"
  using zero_is_missing_required_data
    [of "example_request\<lparr>http_method := ''POST'',
          body := Some [''lat'' \<mapsto> JNum 0, ''lon'' \<mapsto> JNum 76.9, ''ndvi'' \<mapsto> JNum 0.5,
                        ''weatherData'' \<mapsto> JObj []]\<rparr>"
        "[''lat'' \<mapsto> JNum 0, ''lon'' \<mapsto> JNum 76.9, ''ndvi'' \<mapsto> JNum 0.5,
                        ''weatherData'' \<mapsto> JObj []]" example_world]
  by (simp add: example_request_def MissingRequiredData_def)

subsection \<open>The proxying tile handler\<close>

lemma establish_no_request: "HttpsRequest r \<notin> set (fst (establish w wrap))"
  by (simp add: establish_def Let_def split: sum.splits option.splits)

lemma authenticateAndInitialize_no_request:
  "HttpsRequest r \<notin> set (fst (authenticateAndInitialize w))"
  unfolding authenticateAndInitialize_def by (rule establish_no_request)

lemma initializeEe_no_request: "HttpsRequest r \<notin> set (fst (initializeEe w))"
  unfolding initializeEe_def by (rule establish_no_request)

lemma getMapId_events: "fst (getMapId w img) = [GetMap]"
  by (simp add: getMapId_def split: sum.splits)

text \<open>
  C8.  In the proxying tile handler, whenever a request is sent to the tile server and
  the tile server answers it, the request carries the caller's \<open>User-Agent\<close> value
  unchanged as its only header, and the handler answers the caller with the status
  code, the headers and the body of the tile server's answer.
\<close>

theorem proxy_forwards_user_agent_and_status:
  assumes "HttpsRequest r \<in> set (snd (gee_tiles_proxy w req))"
    and "tile_server w r = Inr proxyRes"
  shows "\<exists>ua. headers req ''user-agent'' = Some ua
              \<and> up_headers r = [(''User-Agent'', ua)]
              \<and> fst (gee_tiles_proxy w req)
                  = Proxied (statusCode proxyRes) (resp_headers proxyRes) (resp_body proxyRes)"
proof -
  obtain evs a where a: "authenticateAndInitialize w = (evs, a)"
    by (cases "authenticateAndInitialize w")
  have evs: "HttpsRequest r \<notin> set evs"
    using authenticateAndInitialize_no_request[of r w] by (simp add: a)
  obtain evs' m where m: "getMapId w (getNdviImage w) = (evs', m)"
    by (cases "getMapId w (getNdviImage w)")
  have evs': "evs' = [GetMap]"
    using getMapId_events[of w "getNdviImage w"] m by simp
  show ?thesis
    using assms evs
    by (auto simp add: gee_tiles_proxy_def a m evs' Let_def
        split: sum.splits option.splits)
qed

theorem proxy_forwards_user_agent_and_status_witness:
  "HttpsRequest \<lparr> target = ''https://t.example/5/10/3'',
                  up_method = ''GET'', up_headers = [(''User-Agent'', ''Leaflet/1.9'')],
                  up_body = [] \<rparr>
     \<in> set (snd (gee_tiles_proxy example_world example_request))
   \<and> headers example_request ''user-agent'' = Some ''Leaflet/1.9''
   \<and> fst (gee_tiles_proxy example_world example_request)
       = Proxied 200 [(''content-type'', ''image/png'')] ''PNG''"
  using proxy_forwards_user_agent_and_status
    [of "\<lparr> target = ''https://t.example/5/10/3'',
            up_method = ''GET'', up_headers = [(''User-Agent'', ''Leaflet/1.9'')],
            up_body = [] \<rparr>" example_world example_request
        "\<lparr> statusCode = 200, resp_headers = [(''content-type'', ''image/png'')],
            resp_body = ''PNG'' \<rparr>"]
  by (simp add: proxy_example example_request_fields tile_server_example)

subsection \<open>Point queries without an image or without data\<close>

lemma gee_value_no_image:
  assumes "http_method req \<noteq> ''OPTIONS''"
    and "\<not> isNaN (parseFloat (query req ''lat''))"
    and "\<not> isNaN (parseFloat (query req ''lon''))"
    and "authenticateAndInitialize w = (evs, Inr ())"
    and "candidates_at w (Point (parseFloat (query req ''lon'')) (parseFloat (query req ''lat''))) = []"
  shows "gee_value w req = (Json 500 [(''error'', JStr NoImageFound)], evs @ [EvaluateIndex])"
  using assms
  by (simp add: gee_value_def Let_def runAnalysis_def sort_system_time_start_def first_def
      evaluate_index_def falsy_def value_failure_def message_def NoImageFound_def
      split: option.splits)

lemma gee_value_success_is_a_number:
  assumes "fst (gee_value w req) = Json 200 payload"
  shows "\<exists>v. payload = [(''ndvi'', JNum v)]"
  using assms
  by (auto simp add: gee_value_def Let_def value_failure_def split: if_splits prod.splits sum.splits)

lemma gee_value_no_data:
  assumes "http_method req \<noteq> ''OPTIONS''"
    and "parseFloat (query req ''lat'') = Num lat"
    and "parseFloat (query req ''lon'') = Num lon"
    and "authenticateAndInitialize w = (evs, Inr ())"
    and "index_failure w = None" and "number_failure w = None"
    and "first (sort_system_time_start (candidates_at w (Point (Num lon) (Num lat))) False) = Some im"
    and "system_index im \<noteq> []"
    and "normalizedDifference (raster im (lon, lat)) [''B8'', ''B4''] = None"
  shows "gee_value w req =
           (Json 500 [(''error'', JStr NoDataAtLocation)], evs @ [EvaluateIndex, EvaluateValue])"
proof -
  have "runAnalysis w (Num lat) (Num lon) =
          ([EvaluateIndex, EvaluateValue], Inl (Error NoDataAtLocation))"
    using assms(5-9) by (rule runAnalysis_no_data)
  then show ?thesis
    using assms(1-4)
    by (simp add: gee_value_def Let_def isNaN_def value_failure_def message_def falsy_def
        NoDataAtLocation_def)
qed

lemma legacy_never_preflights: "EvaluateIndex \<notin> set (snd (gee_value_legacy w req))"
  by (auto simp add: gee_value_legacy_def Let_def initializeEe_def establish_def evaluate_def
      split: prod.splits sum.splits option.splits if_splits)

lemma legacy_never_distinguishes:
  "fst (gee_value_legacy w req) \<noteq> Json 500 [(''error'', JStr NoImageFound)]
   \<and> fst (gee_value_legacy w req) \<noteq> Json 500 [(''error'', JStr NoDataAtLocation)]"
  by (auto simp add: gee_value_legacy_def Let_def legacy_failure_def NoImageFound_def
      NoDataAtLocation_def split: prod.splits sum.splits option.splits if_splits)

lemma session_legacy_example:
  "initializeEe example_world =
     ([ReadEnv ''GEE_PRIVATE_KEY_JSON'', ReadEnv ''GEE_PROJECT_ID'', Authenticate (JObj []),
       Initialize (Some ''demo'')], Inr ())"
  by (simp add: initializeEe_def establish_def example_world_def ToString_def)

lemma session_example_catalog:
  "authenticateAndInitialize (example_world\<lparr>catalog := c\<rparr>) = authenticateAndInitialize example_world"
  "initializeEe (example_world\<lparr>catalog := c\<rparr>) = initializeEe example_world"
  by (simp_all add: authenticateAndInitialize_def initializeEe_def establish_def Let_def
      split: sum.split option.split)

text \<open>
  C4.  The handler of \<open>lat\<close> and \<open>lon\<close> answers a window without images with
  the distinguished error after the pre-flight evaluation alone
  (\<open>gee_value_no_image\<close>).  The older handler of \<open>lat\<close> and \<open>lng\<close> has no
  pre-flight (\<open>legacy_never_preflights\<close>, \<open>legacy_never_distinguishes\<close>): on an
  empty catalog it goes straight to the reduction and answers with its generic
  failure and the backend's message.
\<close>

theorem legacy_value_skips_preflight:
  "gee_value_legacy (example_world\<lparr>catalog := []\<rparr>) example_request =
     (Json 500 [(''error'', JStr ''Failed to get GEE value.''),
                (''details'', JStr ''Parameter is required.'')],
      [ReadEnv ''GEE_PRIVATE_KEY_JSON'', ReadEnv ''GEE_PROJECT_ID'', Authenticate (JObj []),
       Initialize (Some ''demo''), EvaluateValue])"
  by (simp add: gee_value_legacy_def session_example_catalog session_legacy_example Let_def
      evaluate_def legacy_failure_def message_def ee_defs)
     (simp add: example_world_def example_request_def ToString_def)

text \<open>
  C5.  The handler of \<open>lat\<close> and \<open>lon\<close> turns a reduction without a value into
  the distinguished no-data error (\<open>gee_value_no_data\<close>) and answers 200 only with
  a number (\<open>gee_value_success_is_a_number\<close>).  The older handler of \<open>lat\<close> and
  \<open>lng\<close> passes the result on unchecked: over a pixel that the cloud mask removed
  it answers 200 with \<open>null\<close> as the sample.
\<close>

theorem legacy_value_null_is_success:
  "gee_value_legacy (example_world\<lparr>catalog := [scene ''S2A_1'' 1717221991000 cloudy_bands]\<rparr>)
       example_request =
     (Json 200 [(''ndvi'', JNull)],
      [ReadEnv ''GEE_PRIVATE_KEY_JSON'', ReadEnv ''GEE_PROJECT_ID'', Authenticate (JObj []),
       Initialize (Some ''demo''), EvaluateValue])"
  apply (simp add: gee_value_legacy_def session_example_catalog session_legacy_example Let_def
      evaluate_def legacy_failure_def message_def)
  apply (simp add: ee_defs js_defs ex_defs)
  done

subsection \<open>Validation of the coordinates\<close>
















subsection \<open>The credentials\<close>



















subsection \<open>The tile URL\<close>

lemma GetSubstitution_plain:
  "CHR ''$'' \<notin> set v \<Longrightarrow> GetSubstitution m b a v = v"
  by (induction m b a v rule: GetSubstitution.induct) auto

lemma split_at_first_sound:
  "split_at_first pat s = Some (b, a) \<Longrightarrow> s = b @ pat @ a"
proof (induction s arbitrary: b)
  case Nil
  then show ?case by (simp split: if_splits)
next
  case (Cons c cs)
  show ?case
  proof (cases "take (length pat) (c # cs) = pat")
    case True
    with Cons.prems have "b = []" and "a = drop (length pat) (c # cs)" by simp_all
    then show ?thesis
      using True append_take_drop_id[of "length pat" "c # cs"] by simp
  next
    case False
    with Cons.prems obtain b' where "split_at_first pat cs = Some (b', a)" and "b = c # b'"
      by (auto split: option.splits)
    then show ?thesis using Cons.IH by simp
  qed
qed

lemma split_at_first_None:
  "pat \<noteq> [] \<Longrightarrow> (split_at_first pat s = None) = (occurrences pat s = 0)"
  by (induction s) auto

lemma occurrences_barrier:
  assumes "c \<noteq> k" and "c \<noteq> CHR ''}''"
  shows "occurrences (placeholder k) (pre @ c # rest) = occurrences (placeholder k) pre + occurrences (placeholder k) (c # rest)"
proof (induction pre)
  case Nil
  then show ?case by simp
next
  case (Cons a pre)
  consider "pre = []" | b where "pre = [b]" | b b' pre' where "pre = b # b' # pre'"
    by (cases pre; cases "tl pre") auto
  then show ?case
  proof cases
    case 1
    then show ?thesis using assms by (simp add: placeholder_def)
  next
    case 2
    then show ?thesis using assms Cons.IH by (simp add: placeholder_def)
  next
    case 3
    then show ?thesis using assms Cons.IH by (simp add: placeholder_def)
  qed
qed

lemma occurrences_skip:
  assumes "CHR ''{'' \<notin> set v"
  shows "occurrences (placeholder k) (v @ rest) = occurrences (placeholder k) rest"
  using assms by (induction v) (auto simp add: placeholder_def)

lemma occurrences_placeholder:
  assumes "k \<noteq> CHR ''{''" and "q \<noteq> CHR ''{''"
  shows "occurrences (placeholder k) (placeholder q @ rest) = (if q = k then 1 else 0) + occurrences (placeholder k) rest"
  using assms by (auto simp add: placeholder_def)

lemma fill_head:
  "d \<noteq> CHR ''{'' \<Longrightarrow> fill vx vy vz (d # t) = d # fill vx vy vz t"
proof -
  assume d: "d \<noteq> CHR ''{''"
  consider "t = []" | a where "t = [a]" | a b r where "t = a # b # r"
    by (cases t; cases "tl t") auto
  then show ?thesis using d by cases simp_all
qed

lemma fill_skip:
  "CHR ''{'' \<notin> set v \<Longrightarrow> fill vx vy vz (v @ rest) = v @ fill vx vy vz rest"
  by (induction v) (simp_all add: fill_head[OF not_sym])

lemma fill_placeholder:
  "fill vx vy vz (placeholder (CHR ''x'') @ rest) = vx @ fill vx vy vz rest"
  "fill vx vy vz (placeholder (CHR ''y'') @ rest) = vy @ fill vx vy vz rest"
  "fill vx vy vz (placeholder (CHR ''z'') @ rest) = vz @ fill vx vy vz rest"
  by (simp_all add: placeholder_def)

lemma fill_barrier:
  assumes "c \<notin> set ''xyz}''"
  shows "fill vx vy vz (pre @ c # rest) = fill vx vy vz pre @ fill vx vy vz (c # rest)"
proof -
  have one: "fill ux uy uz (a # c # rest) = a # fill ux uy uz (c # rest)" for a ux uy uz
  proof -
    consider "rest = []" | r rest' where "rest = r # rest'" by (cases rest) auto
    then show ?thesis using assms by cases auto
  qed
  show ?thesis
  proof (induction vx vy vz pre rule: fill.induct)
    case (1 vx vy vz a k b pre)
    then show ?case by simp
  qed (insert assms, simp_all add: one)
qed

lemma plain_facts:
  assumes "plain v"
  shows "CHR ''{'' \<notin> set v" and "CHR ''$'' \<notin> set v"
    and "\<exists>c t. v = c # t \<and> c \<notin> set ''xyz}'' \<and> c \<noteq> CHR ''{''"
proof -
  from assms have ne: "v \<noteq> []" and all: "\<forall>c\<in>set v. c \<notin> set ''{}$xyz''"
    by (simp_all add: plain_def list_all_iff)
  from all show "CHR ''{'' \<notin> set v" and "CHR ''$'' \<notin> set v" by auto
  from ne obtain c t where v: "v = c # t" by (cases v) auto
  with all have "c \<notin> set ''{}$xyz''" by simp
  then have "c \<notin> set ''xyz}'' \<and> c \<noteq> CHR ''{''" by auto
  with v show "\<exists>c t. v = c # t \<and> c \<notin> set ''xyz}'' \<and> c \<noteq> CHR ''{''" by blast
qed

text \<open>One replacement step, for the placeholder of \<open>q\<close> and a plain value.\<close>

lemma replace_step:
  assumes "plain v" and "q \<in> set ''xyz''"
  shows "replace s (placeholder q) v = s \<and> occurrences (placeholder q) s = 0
         \<or> (\<exists>pre post. s = pre @ placeholder q @ post \<and> replace s (placeholder q) v = pre @ v @ post)"
proof (cases "split_at_first (placeholder q) s")
  case None
  then have "occurrences (placeholder q) s = 0"
    using split_at_first_None[of "placeholder q" s] by (simp add: placeholder_def)
  then show ?thesis using None by (simp add: replace_def)
next
  case (Some p)
  obtain pre post where p: "p = (pre, post)" by (cases p)
  have "s = pre @ placeholder q @ post"
    using Some p split_at_first_sound by simp
  moreover have "replace s (placeholder q) v = pre @ v @ post"
    using Some p plain_facts(2)[OF assms(1)]
    by (simp add: replace_def GetSubstitution_plain)
  ultimately show ?thesis by blast
qed

lemma replace_occurrences:
  assumes "plain v" and "q \<in> set ''xyz''" and "k \<in> set ''xyz''"
  shows "occurrences (placeholder k) (replace s (placeholder q) v) =
           occurrences (placeholder k) s - (if k = q then 1 else 0)"
proof -
  from plain_facts(3)[OF assms(1)] obtain c t
    where v: "v = c # t" and c: "c \<notin> set ''xyz}''" "c \<noteq> CHR ''{''"
    by blast
  have ck: "c \<noteq> k" "c \<noteq> CHR ''}''" using c assms(3) by auto
  have bk: "CHR ''{'' \<noteq> k" "k \<noteq> CHR ''{''" "q \<noteq> CHR ''{''" using assms(2,3) by auto
  from replace_step[OF assms(1,2), of s] show ?thesis
  proof
    assume "replace s (placeholder q) v = s \<and> occurrences (placeholder q) s = 0"
    then show ?thesis by auto
  next
    assume "\<exists>pre post. s = pre @ placeholder q @ post \<and> replace s (placeholder q) v = pre @ v @ post"
    then obtain pre post where s: "s = pre @ placeholder q @ post"
      and r: "replace s (placeholder q) v = pre @ v @ post" by blast
    have "occurrences (placeholder k) (pre @ v @ post)
            = occurrences (placeholder k) pre + occurrences (placeholder k) (v @ post)"
      using occurrences_barrier[OF ck, of pre "t @ post"] by (simp add: v)
    also have "occurrences (placeholder k) (v @ post) = occurrences (placeholder k) post"
      using plain_facts(1)[OF assms(1)] by (rule occurrences_skip)
    finally have new: "occurrences (placeholder k) (pre @ v @ post)
            = occurrences (placeholder k) pre + occurrences (placeholder k) post" .
    have "occurrences (placeholder k) (pre @ placeholder q @ post)
            = occurrences (placeholder k) pre + occurrences (placeholder k) (placeholder q @ post)"
      using occurrences_barrier[of "CHR ''{''" k pre "q # CHR ''}'' # post"] bk(1)
      by (simp add: placeholder_def)
    also have "occurrences (placeholder k) (placeholder q @ post)
            = (if q = k then 1 else 0) + occurrences (placeholder k) post"
      using bk(2,3) by (rule occurrences_placeholder)
    finally have old: "occurrences (placeholder k) (pre @ placeholder q @ post)
            = occurrences (placeholder k) pre + (if q = k then 1 else 0) + occurrences (placeholder k) post"
      by simp
    have "occurrences (placeholder k) (replace s (placeholder q) v)
            = occurrences (placeholder k) pre + occurrences (placeholder k) post"
      by (simp only: r new)
    moreover have "occurrences (placeholder k) s
            = occurrences (placeholder k) pre + (if q = k then 1 else 0) + occurrences (placeholder k) post"
      by (simp only: s old)
    ultimately show ?thesis by auto
  qed
qed



lemma replace_fill:
  assumes "plain v" and "q \<in> set ''xyz''"
    and fq: "\<And>rest. fill vx vy vz (placeholder q @ rest) = v @ fill vx vy vz rest"
  shows "fill vx vy vz (replace s (placeholder q) v) = fill vx vy vz s"
proof -
  from plain_facts(3)[OF assms(1)] obtain c t
    where v: "v = c # t" and c: "c \<notin> set ''xyz}''" "c \<noteq> CHR ''{''"
    by blast
  from replace_step[OF assms(1,2), of s] show ?thesis
  proof
    assume "replace s (placeholder q) v = s \<and> occurrences (placeholder q) s = 0"
    then show ?thesis by simp
  next
    assume "\<exists>pre post. s = pre @ placeholder q @ post \<and> replace s (placeholder q) v = pre @ v @ post"
    then obtain pre post where s: "s = pre @ placeholder q @ post"
      and r: "replace s (placeholder q) v = pre @ v @ post" by blast
    have "fill vx vy vz (pre @ v @ post) = fill vx vy vz pre @ fill vx vy vz (v @ post)"
      using fill_barrier[OF c(1), of vx vy vz pre "t @ post"] by (simp add: v)
    also have "fill vx vy vz (v @ post) = v @ fill vx vy vz post"
      using plain_facts(1)[OF assms(1)] by (rule fill_skip)
    finally have new: "fill vx vy vz (pre @ v @ post)
                         = fill vx vy vz pre @ v @ fill vx vy vz post" .
    have "fill vx vy vz (pre @ placeholder q @ post)
            = fill vx vy vz pre @ fill vx vy vz (placeholder q @ post)"
      using fill_barrier[of "CHR ''{''" vx vy vz pre "q # CHR ''}'' # post"]
      by (simp add: placeholder_def)
    then have old: "fill vx vy vz (pre @ placeholder q @ post)
                      = fill vx vy vz pre @ v @ fill vx vy vz post"
      by (simp only: fq)
    have "fill vx vy vz (replace s (placeholder q) v) = fill vx vy vz pre @ v @ fill vx vy vz post"
      by (simp only: r new)
    moreover have "fill vx vy vz s = fill vx vy vz pre @ v @ fill vx vy vz post"
      by (simp only: s old)
    ultimately show ?thesis by simp
  qed
qed

lemma fill_no_placeholder:
  "no_placeholder s \<Longrightarrow> fill vx vy vz s = s"
proof (induction vx vy vz s rule: fill.induct)
  case (1 vx vy vz a k b rest)
  from "1.prems" have here: "\<not> (a = CHR ''{'' \<and> k = CHR ''x'' \<and> b = CHR ''}'')"
      "\<not> (a = CHR ''{'' \<and> k = CHR ''y'' \<and> b = CHR ''}'')"
      "\<not> (a = CHR ''{'' \<and> k = CHR ''z'' \<and> b = CHR ''}'')"
    and later: "no_placeholder (k # b # rest)"
    by (auto simp add: no_placeholder_def split: if_splits)
  have "fill vx vy vz (k # b # rest) = k # b # rest"
    by (rule "1.IH"(4)[OF here later])
  moreover have "fill vx vy vz (a # k # b # rest) = a # fill vx vy vz (k # b # rest)"
    using here by auto
  ultimately show ?case by simp
qed simp_all

lemma placeholder_literals:
  "''{x}'' = placeholder (CHR ''x'')" "''{y}'' = placeholder (CHR ''y'')" "''{z}'' = placeholder (CHR ''z'')"
  by (simp_all add: placeholder_def)

text \<open>
  The substituting handlers, on a template with exactly one placeholder of each kind
  and plain values: the three replacements, one after the other, give the template
  with every placeholder filled by its value, and no placeholder is left.
\<close>

lemma tileUrl_fills_template:
  assumes x1: "occurrences ''{x}'' t = 1" and y1: "occurrences ''{y}'' t = 1"
    and z1: "occurrences ''{z}'' t = 1"
    and px: "plain (ToString (q ''x''))" and py: "plain (ToString (q ''y''))"
    and pz: "plain (ToString (q ''z''))"
  shows "tileUrl t q = fill (ToString (q ''x'')) (ToString (q ''y'')) (ToString (q ''z'')) t
         \<and> no_placeholder (tileUrl t q)"
proof -
  define vx where "vx = ToString (q ''x'')"
  define vy where "vy = ToString (q ''y'')"
  define vz where "vz = ToString (q ''z'')"
  define r1 where "r1 = replace t (placeholder (CHR ''x'')) vx"
  define r2 where "r2 = replace r1 (placeholder (CHR ''y'')) vy"
  define r3 where "r3 = replace r2 (placeholder (CHR ''z'')) vz"
  have pl: "plain vx" "plain vy" "plain vz"
    using px py pz by (simp_all add: vx_def vy_def vz_def)
  have url: "tileUrl t q = r3"
    by (simp add: tileUrl_def r3_def r2_def r1_def vx_def vy_def vz_def placeholder_literals)
  have t: "occurrences (placeholder (CHR ''x'')) t = 1" "occurrences (placeholder (CHR ''y'')) t = 1"
    "occurrences (placeholder (CHR ''z'')) t = 1"
    using x1 y1 z1 by (simp_all add: placeholder_literals)
  have c1: "occurrences (placeholder (CHR ''x'')) r1 = 0" "occurrences (placeholder (CHR ''y'')) r1 = 1"
    "occurrences (placeholder (CHR ''z'')) r1 = 1"
    unfolding r1_def using t by (simp_all add: replace_occurrences[OF pl(1)])
  have c2: "occurrences (placeholder (CHR ''x'')) r2 = 0" "occurrences (placeholder (CHR ''y'')) r2 = 0"
    "occurrences (placeholder (CHR ''z'')) r2 = 1"
    unfolding r2_def using c1 by (simp_all add: replace_occurrences[OF pl(2)])
  have c3: "occurrences (placeholder (CHR ''x'')) r3 = 0" "occurrences (placeholder (CHR ''y'')) r3 = 0"
    "occurrences (placeholder (CHR ''z'')) r3 = 0"
    unfolding r3_def using c2 by (simp_all add: replace_occurrences[OF pl(3)])
  have clean: "no_placeholder r3"
    using c3 by (simp add: no_placeholder_def placeholder_literals)
  have "fill vx vy vz r3 = fill vx vy vz r2"
    unfolding r3_def by (rule replace_fill[OF pl(3)]) (simp_all add: fill_placeholder)
  also have "\<dots> = fill vx vy vz r1"
    unfolding r2_def by (rule replace_fill[OF pl(2)]) (simp_all add: fill_placeholder)
  also have "\<dots> = fill vx vy vz t"
    unfolding r1_def by (rule replace_fill[OF pl(1)]) (simp_all add: fill_placeholder)
  finally have "fill vx vy vz r3 = fill vx vy vz t" .
  moreover have "fill vx vy vz r3 = r3"
    using clean by (rule fill_no_placeholder)
  ultimately have "r3 = fill vx vy vz t" by simp
  then show ?thesis
    using clean url by (simp add: vx_def vy_def vz_def)
qed

lemma digit_is_plain_char: "is_digit c \<Longrightarrow> c \<notin> set ''{}$xyz''"
  unfolding is_digit_def by (elim disjE | simp)+

lemma decimal_is_plain:
  assumes "v \<noteq> []" and "list_all is_digit v"
  shows "plain v"
proof -
  from assms(2) have "\<forall>c\<in>set v. is_digit c" by (simp add: list_all_iff)
  then have "\<forall>c\<in>set v. c \<notin> set ''{}$xyz''" using digit_is_plain_char by blast
  then show ?thesis using assms(1) unfolding plain_def list_all_iff by blast
qed

lemma getMapId_result:
  "getMapId w img = (evs, Inr t) \<Longrightarrow> getMap_reply w img = Inr t"
  by (simp add: getMapId_def split: sum.splits)

lemma redirect_uses_tileUrl:
  assumes "fst (gee_tiles_redirect w req) = Redirect 302 u"
  shows "\<exists>t. getMap_reply w (getNdviImage w) = Inr t \<and> u = tileUrl t (query req)"
proof -
  obtain evs a where a: "authenticateAndInitialize w = (evs, a)"
    by (cases "authenticateAndInitialize w")
  obtain evs' m where m: "getMapId w (getNdviImage w) = (evs', m)"
    by (cases "getMapId w (getNdviImage w)")
  show ?thesis
    using assms getMapId_result[of w "getNdviImage w" evs']
    by (cases a; cases m) (simp_all add: gee_tiles_redirect_def a m tile_failure_def)
qed

lemma proxy_uses_tileUrl:
  assumes "HttpsRequest r \<in> set (snd (gee_tiles_proxy w req))"
  shows "\<exists>t. getMap_reply w (getNdviImage w) = Inr t \<and> target r = tileUrl t (query req)"
proof -
  obtain evs a where a: "authenticateAndInitialize w = (evs, a)"
    by (cases "authenticateAndInitialize w")
  have evs: "HttpsRequest r \<notin> set evs"
    using authenticateAndInitialize_no_request[of r w] by (simp add: a)
  obtain evs' m where m: "getMapId w (getNdviImage w) = (evs', m)"
    by (cases "getMapId w (getNdviImage w)")
  have evs': "evs' = [GetMap]"
    using getMapId_events[of w "getNdviImage w"] m by simp
  show ?thesis
    using assms evs getMapId_result[of w "getNdviImage w" evs']
    by (cases a; cases m; cases "headers req ''user-agent''")
       (auto simp add: gee_tiles_proxy_def a m evs' Let_def split: sum.splits)
qed

lemma example_template_counts:
  "occurrences ''{x}'' ''https://t.example/{z}/{x}/{y}'' = 1"
  "occurrences ''{y}'' ''https://t.example/{z}/{x}/{y}'' = 1"
  "occurrences ''{z}'' ''https://t.example/{z}/{x}/{y}'' = 1"
  by simp_all

lemma example_query_values:
  "ToString (query example_request ''x'') = ''10''"
  "ToString (query example_request ''y'') = ''3''"
  "ToString (query example_request ''z'') = ''5''"
  by (simp_all add: ToString_def example_request_def)

lemma example_values_plain:
  "plain (ToString (query example_request ''x''))"
  "plain (ToString (query example_request ''y''))"
  "plain (ToString (query example_request ''z''))"
  by (simp_all add: plain_def example_query_values)

lemma tileUrl_example_fills:
  "tileUrl ''https://t.example/{z}/{x}/{y}'' (query example_request)
     = fill ''10'' ''3'' ''5'' ''https://t.example/{z}/{x}/{y}''
   \<and> no_placeholder (tileUrl ''https://t.example/{z}/{x}/{y}'' (query example_request))"
  using tileUrl_fills_template[OF example_template_counts example_values_plain]
  unfolding example_query_values .

text \<open>
  C6.  The redirecting and the proxying handler use \<open>tileUrl\<close>
  (\<open>redirect_uses_tileUrl\<close>, \<open>proxy_uses_tileUrl\<close>), which fills a template with
  one placeholder of each kind as the claim says when the values are plain
  (\<open>tileUrl_fills_template\<close>).  The oldest tile handler does not substitute at all:
  for z = 5, x = 10, y = 3 it redirects to the template itself, in which each of the
  three placeholders still occurs.
\<close>

theorem legacy_tiles_redirect_to_template:
  "gee_tiles_legacy example_world example_request =
     (Redirect 307 ''https://t.example/{z}/{x}/{y}'',
      [ReadEnv ''GEE_PRIVATE_KEY_JSON'', ReadEnv ''GEE_PROJECT_ID'', Authenticate (JObj []),
       Initialize (Some ''demo''), GetMap])
   \<and> occurrences ''{x}'' ''https://t.example/{z}/{x}/{y}'' = 1
   \<and> occurrences ''{y}'' ''https://t.example/{z}/{x}/{y}'' = 1
   \<and> occurrences ''{z}'' ''https://t.example/{z}/{x}/{y}'' = 1"
proof -
  have "redirect_default_status example_world = 307"
    by (simp add: example_world_def)
  then show ?thesis
    by (simp add: gee_tiles_legacy_def session_legacy_example getMapId_example
        example_template_counts)
qed

text \<open>
  Values that are not plain: a value that is itself a placeholder is replaced again by
  the next step, and \<open>$&\<close> in a value stands for the matched placeholder.
\<close>

lemma tileUrl_placeholder_value:
  "tileUrl ''https://t.example/{z}/{x}/{y}'' [''x'' \<mapsto> ''{y}'', ''y'' \<mapsto> ''3'', ''z'' \<mapsto> ''5'']
     = ''https://t.example/5/3/{y}''"
  apply (simp add: tileUrl_def ToString_def)
  apply (simp add: replace_def)
  done

lemma tileUrl_dollar_value:
  "tileUrl ''https://t.example/{z}/{x}/{y}'' [''x'' \<mapsto> ''$&'', ''y'' \<mapsto> ''3'', ''z'' \<mapsto> ''5'']
     = ''https://t.example/5/{x}/3''"
  apply (simp add: tileUrl_def ToString_def)
  apply (simp add: replace_def)
  done

end
